theory Spec2Isabelle
  imports Complex_Main "HOL-Library.Word" "HOL-Library.Multiset"
begin

section \<open>Values shared by the submitter and the reporter\<close>

text \<open>
  A Go \<open>error\<close> value is its message. A function returning \<open>(T, error)\<close> is modelled with
  the result type \<open>error + T\<close>, \<open>Inl\<close> carrying the error.
\<close>

datatype error = Error string

type_synonym bytes = "8 word list"

type_synonym Hash = string

text \<open>
  \<open>float64\<close> amounts are modelled by the rational they denote, so the comparisons \<open><\<close>
  and \<open>>\<close> of the source are the order of the rationals. NaN and the infinities are
  not values of this type (a wallet's JSON reply cannot carry them) and floating-point
  rounding is not modelled.
\<close>

type_synonym float64 = rat

text \<open>\<open>btcutil.Amount\<close> is an \<open>int64\<close> number of satoshis; \<open>int64\<close> is the wrap-around
  of Go's signed 64-bit arithmetic.\<close>

type_synonym Amount = int

definition int64 :: "int \<Rightarrow> int" where
  "int64 x = (x + 2 ^ 63) mod 2 ^ 64 - 2 ^ 63"

definition SatoshiPerBitcoin :: rat where
  "SatoshiPerBitcoin = 100000000"

text \<open>Go's conversion of a float to an integer drops the fraction.\<close>

definition trunc :: "rat \<Rightarrow> int" where
  "trunc x = (if x < 0 then \<lceil>x\<rceil> else \<lfloor>x\<rfloor>)"

text \<open>\<open>btcutil.round\<close>: \<open>if f < 0 { return Amount(f - 0.5) }; return Amount(f + 0.5)\<close>.
  Where the float is outside the range of \<open>int64\<close> Go leaves the converted value to the
  implementation; the model wraps it.\<close>

definition round_Amount :: "float64 \<Rightarrow> Amount" where
  "round_Amount f = (if f < 0 then int64 (trunc (f - 1 / 2)) else int64 (trunc (f + 1 / 2)))"

text \<open>\<open>btcutil.NewAmount\<close> fails on NaN and the infinities only, which \<open>float64\<close> here
  does not contain.\<close>

definition NewAmount :: "float64 \<Rightarrow> error + Amount" where
  "NewAmount f = Inr (round_Amount (f * SatoshiPerBitcoin))"

text \<open>\<open>Amount.ToBTC\<close>: \<open>float64(a) / 1e8\<close>.\<close>

definition ToBTC :: "Amount \<Rightarrow> float64" where
  "ToBTC a = of_int a / SatoshiPerBitcoin"

section \<open>The submitter: data\<close>

text \<open>\<open>btcjson.ListUnspentResult\<close>, the fields the submitter reads or prints.\<close>

record ListUnspentResult =
  TxID :: string
  Vout :: "32 word"
  Address :: string
  ScriptPubKey :: string
  Amount :: float64
  Spendable :: bool

record OutPoint =
  OutPoint_Hash :: Hash
  OutPoint_Index :: "32 word"

record TxIn =
  PreviousOutPoint :: OutPoint
  SignatureScript :: "bytes option"
  Witness :: "bytes list option"
  Sequence :: "32 word"

record TxOut =
  Value :: int
  PkScript :: bytes

record MsgTx =
  Version :: int
  TxIn :: "TxIn list"
  TxOut :: "TxOut list"
  LockTime :: "32 word"

definition NewMsgTx :: "int \<Rightarrow> MsgTx" where
  "NewMsgTx version = \<lparr>Version = version, TxIn = [], TxOut = [], LockTime = 0\<rparr>"

definition TxVersion :: int where
  "TxVersion = 1"

definition NewOutPoint :: "Hash \<Rightarrow> 32 word \<Rightarrow> OutPoint" where
  "NewOutPoint hash index = \<lparr>OutPoint_Hash = hash, OutPoint_Index = index\<rparr>"

definition MaxTxInSequenceNum :: "32 word" where
  "MaxTxInSequenceNum = 0xffffffff"

definition NewTxIn :: "OutPoint \<Rightarrow> bytes option \<Rightarrow> bytes list option \<Rightarrow> TxIn" where
  "NewTxIn prevOut signatureScript witness =
     \<lparr>PreviousOutPoint = prevOut, SignatureScript = signatureScript,
      Witness = witness, Sequence = MaxTxInSequenceNum\<rparr>"

definition NewTxOut :: "int \<Rightarrow> bytes \<Rightarrow> TxOut" where
  "NewTxOut v pkScript = \<lparr>Value = v, PkScript = pkScript\<rparr>"

definition AddTxIn :: "TxIn \<Rightarrow> MsgTx \<Rightarrow> MsgTx" where
  "AddTxIn ti tx = tx\<lparr>TxIn := TxIn tx @ [ti]\<rparr>"

definition AddTxOut :: "TxOut \<Rightarrow> MsgTx \<Rightarrow> MsgTx" where
  "AddTxOut to tx = tx\<lparr>TxOut := TxOut tx @ [to]\<rparr>"

datatype CheckpointStatus = Accumulating | Sealed | Submitted | Confirmed | Finalized

record RawCheckpoint =
  EpochNum :: "64 word"
  LastCommitHash :: bytes
  Bitmap :: bytes
  BlsMultiSig :: bytes

record RawCheckpointWithMeta =
  Ckpt :: RawCheckpoint
  Status :: CheckpointStatus

record BTCConfig =
  TxFee :: Amount
  WalletPassword :: string
  WalletLockTime :: int

section \<open>The submitter: calls that leave the process\<close>

text \<open>
  The wallet backend is outside the repository. Its methods are parameters: each takes the
  state \<open>'w\<close> of the world outside the process and returns its reply with the new state.
  \<open>DumpPrivKey\<close> receives a nil-able address, since \<open>buildTxWithData\<close> passes on whatever
  \<open>btcutil.DecodeAddress\<close> returned without looking at its error.
\<close>

record 'w BTCWallet =
  wallet_Cfg :: BTCConfig
  ListUnspent :: "'w \<Rightarrow> (error + ListUnspentResult list) \<times> 'w"
  GetRawChangeAddress :: "string \<Rightarrow> 'w \<Rightarrow> (error + string) \<times> 'w"
  WalletPassphrase :: "string \<Rightarrow> int \<Rightarrow> 'w \<Rightarrow> (error + unit) \<times> 'w"
  DumpPrivKey :: "string option \<Rightarrow> 'w \<Rightarrow> (error + bytes) \<times> 'w"
  SendRawTransaction :: "MsgTx \<Rightarrow> bool \<Rightarrow> 'w \<Rightarrow> (error + Hash) \<times> 'w"

text \<open>
  The library functions the submitter calls are pure; they are parameters too.
  \<open>sort_Slice\<close> is Go's \<open>sort.Slice\<close> with the comparison function as its first argument;
  \<open>OP_RETURN_Script\<close> is \<open>NewScriptBuilder().AddOp(OP_RETURN).AddData(data).Script()\<close>.
\<close>

record SubmitterLib =
  sort_Slice :: "(ListUnspentResult \<Rightarrow> ListUnspentResult \<Rightarrow> bool) \<Rightarrow>
                 ListUnspentResult list \<Rightarrow> ListUnspentResult list"
  Marshal :: "bytes \<Rightarrow> error + bytes"
  EncodeCheckpointData :: "bytes \<Rightarrow> 8 word \<Rightarrow> 64 word \<Rightarrow> bytes \<Rightarrow> bytes \<Rightarrow> bytes \<Rightarrow> bytes \<Rightarrow>
                           error + bytes \<times> bytes"
  NewHashFromStr :: "string \<Rightarrow> error + Hash"
  OP_RETURN_Script :: "bytes \<Rightarrow> error + bytes"
  hex_DecodeString :: "string \<Rightarrow> error + bytes"
  PayToAddrScript :: "string \<Rightarrow> error + bytes"
  DecodeAddress :: "string \<Rightarrow> string \<Rightarrow> error + string"
  txscript_SignatureScript :: "MsgTx \<Rightarrow> nat \<Rightarrow> bytes \<Rightarrow> bytes \<Rightarrow> bool \<Rightarrow> error + bytes"
  Serialize :: "MsgTx \<Rightarrow> error + bytes"

record 'w Submitter =
  btcWallet :: "'w BTCWallet"
  lib :: SubmitterLib
  Tag :: bytes
  Version_of_Cfg :: "8 word"
  NetParams :: string
  account :: string
  submitterAddress :: bytes

text \<open>
  What the process does to the world is kept as a trace next to the world's state: every
  wallet call and every \<open>Infof\<close>, \<open>Warnf\<close> and \<open>Errorf\<close> line is appended when it happens
  (\<open>Debugf\<close> lines are left out, but for the one \<open>SubmitCkpt\<close> prints when it is entered).
\<close>

datatype event =
    CallListUnspent
  | CallGetRawChangeAddress string
  | CallWalletPassphrase string int
  | CallDumpPrivKey "string option"
  | CallSendRawTransaction MsgTx bool
  | LogSubmitting "64 word"
  | LogSealedFound "64 word"
  | LogSubmitted "64 word"
  | LogSubmitFailed "64 word" error

record 'w world =
  trace :: "event list"
  ext :: 'w

text \<open>
  \<open>andThen\<close> is the \<open>if err != nil { return ..., err }\<close> that follows every fallible step:
  an error ends the function with the state reached so far. \<open>lib_call\<close> is a step that
  does not touch the world, \<open>call\<close> a wallet call, entered in the trace.
\<close>

definition andThen ::
  "('s \<Rightarrow> (error + 'a) \<times> 's) \<Rightarrow> ('a \<Rightarrow> 's \<Rightarrow> (error + 'b) \<times> 's) \<Rightarrow> 's \<Rightarrow> (error + 'b) \<times> 's" where
  "andThen m f w = (case m w of (Inl err, w') \<Rightarrow> (Inl err, w') | (Inr a, w') \<Rightarrow> f a w')"

definition lib_call :: "error + 'a \<Rightarrow> 's \<Rightarrow> (error + 'a) \<times> 's" where
  "lib_call r w = (r, w)"

definition emit :: "event \<Rightarrow> 'w world \<Rightarrow> 'w world" where
  "emit e w = w\<lparr>trace := trace w @ [e]\<rparr>"

definition call :: "event \<Rightarrow> ('w \<Rightarrow> 'a \<times> 'w) \<Rightarrow> 'w world \<Rightarrow> 'a \<times> 'w world" where
  "call e f w = (case f (ext w) of (r, x) \<Rightarrow> (r, \<lparr>trace = trace w @ [e], ext = x\<rparr>))"

section \<open>Sorting the unspent outputs\<close>

text \<open>
  The comparison function handed to \<open>sort.Slice\<close>:
  \<open>utxos[i].Spendable && utxos[i].Amount > utxos[j].Amount\<close>.
\<close>

definition utxo_less :: "ListUnspentResult \<Rightarrow> ListUnspentResult \<Rightarrow> bool" where
  "utxo_less a b \<longleftrightarrow> Spendable a \<and> Amount a > Amount b"

text \<open>
  Go's \<open>insertionSort_func\<close>, the routine \<open>sort.Slice\<close> runs on a short slice (of at most
  six elements in every release of Go, of at most twelve since Go 1.19):
  \<^verbatim>\<open>
  for i := a + 1; i < b; i++ {
      for j := i; j > a && data.Less(j, j-1); j-- { data.Swap(j, j-1) }
  }\<close>
  \<open>sift\<close> is the inner loop; it walks the elements before position \<open>i\<close> from the right,
  so it takes them in reverse order.
\<close>

fun sift :: "('a \<Rightarrow> 'a \<Rightarrow> bool) \<Rightarrow> 'a list \<Rightarrow> 'a \<Rightarrow> 'a list" where
  "sift lt [] x = [x]"
| "sift lt (y # ys) x = (if lt x y then y # sift lt ys x else x # y # ys)"

definition insertionSort_func :: "('a \<Rightarrow> 'a \<Rightarrow> bool) \<Rightarrow> 'a list \<Rightarrow> 'a list" where
  "insertionSort_func lt xs = rev (foldl (sift lt) [] xs)"

text \<open>
  The ranking in the words of the specification, for comparison with \<open>utxo_less\<close>: a
  spendable output comes before a non-spendable one whatever the amounts, and of two outputs
  of equal spendability the larger amount comes first. The code does not use it.
\<close>

definition spec_rank_less :: "ListUnspentResult \<Rightarrow> ListUnspentResult \<Rightarrow> bool" where
  "spec_rank_less a b \<longleftrightarrow>
     Spendable a \<and> \<not> Spendable b \<or> Spendable a = Spendable b \<and> Amount a > Amount b"

section \<open>Selecting two unspent outputs\<close>

definition getTopTwoUTXOs ::
  "'w Submitter \<Rightarrow> 'w world \<Rightarrow> (error + ListUnspentResult \<times> ListUnspentResult) \<times> 'w world" where
  "getTopTwoUTXOs s w =
     (case call CallListUnspent (ListUnspent (btcWallet s)) w of
        (Inl err, w1) \<Rightarrow> (Inl err, w1)
      | (Inr utxos, w1) \<Rightarrow>
          if length utxos < 2 then (Inl (Error ''insufficient unspent transactions''), w1)
          else
            let sorted = sort_Slice (lib s) utxo_less utxos;
                txfee = ToBTC (TxFee (wallet_Cfg (btcWallet s)))
            in if Amount (sorted ! 0) < txfee then (Inl (Error ''insufficient fees''), w1)
               else if Amount (sorted ! 1) < txfee then (Inl (Error ''insufficient fees''), w1)
               else (Inr (sorted ! 0, sorted ! 1), w1))"

section \<open>Building and sending one transaction\<close>

text \<open>
  \<open>buildTxWithData\<close>, step by step as in the source. The error of
  \<open>btcutil.DecodeAddress\<close> is overwritten by the next assignment without being read, so
  a failed decoding hands a nil address to \<open>DumpPrivKey\<close>.
\<close>

definition buildTxWithData ::
  "'w Submitter \<Rightarrow> ListUnspentResult \<Rightarrow> bytes \<Rightarrow> 'w world \<Rightarrow> (error + MsgTx) \<times> 'w world" where
  "buildTxWithData s utxo data =
     (let tx = NewMsgTx TxVersion in
      andThen (lib_call (NewHashFromStr (lib s) (TxID utxo))) (\<lambda>hash.
      let outPoint = NewOutPoint hash 0;
          txIn = NewTxIn outPoint None None;
          tx = AddTxIn txIn tx in
      andThen (lib_call (OP_RETURN_Script (lib s) data)) (\<lambda>dataScript.
      let tx = AddTxOut (NewTxOut 0 dataScript) tx in
      andThen (call (CallGetRawChangeAddress (account s))
                 (GetRawChangeAddress (btcWallet s) (account s))) (\<lambda>changeAddr.
      andThen (lib_call (hex_DecodeString (lib s) (ScriptPubKey utxo))) (\<lambda>prevPKScript.
      andThen (lib_call (PayToAddrScript (lib s) changeAddr)) (\<lambda>changeScript.
      andThen (lib_call (NewAmount (Amount utxo))) (\<lambda>amount.
      let cfg = wallet_Cfg (btcWallet s);
          tx = AddTxOut (NewTxOut (int64 (amount - TxFee cfg)) changeScript) tx in
      andThen (call (CallWalletPassphrase (WalletPassword cfg) (WalletLockTime cfg))
                 (WalletPassphrase (btcWallet s) (WalletPassword cfg) (WalletLockTime cfg))) (\<lambda>_.
      let prevAddr = (case DecodeAddress (lib s) (Address utxo) (NetParams s) of
                        Inl _ \<Rightarrow> None | Inr a \<Rightarrow> Some a) in
      andThen (call (CallDumpPrivKey prevAddr) (DumpPrivKey (btcWallet s) prevAddr)) (\<lambda>wif.
      andThen (lib_call (txscript_SignatureScript (lib s) tx 0 prevPKScript wif True)) (\<lambda>sig.
      let tx = tx\<lparr>TxIn := (TxIn tx)[0 := (TxIn tx ! 0)\<lparr>SignatureScript := Some sig\<rparr>]\<rparr> in
      andThen (lib_call (Serialize (lib s) tx)) (\<lambda>signedTxHex.
      lib_call (Inr tx))))))))))))"

definition sendTxToBTC :: "'w Submitter \<Rightarrow> MsgTx \<Rightarrow> 'w world \<Rightarrow> (error + Hash) \<times> 'w world" where
  "sendTxToBTC s tx =
     andThen (call (CallSendRawTransaction tx True) (SendRawTransaction (btcWallet s) tx True))
       (\<lambda>ha. lib_call (Inr ha))"

section \<open>Submitting a checkpoint\<close>

definition ConvertCkptToTwoTxAndSubmit ::
  "'w Submitter \<Rightarrow> RawCheckpointWithMeta \<Rightarrow> 'w world \<Rightarrow> (error + unit) \<times> 'w world" where
  "ConvertCkptToTwoTxAndSubmit s ckpt =
     andThen (lib_call (Marshal (lib s) (LastCommitHash (Ckpt ckpt)))) (\<lambda>lch.
     andThen (lib_call (EncodeCheckpointData (lib s) (Tag s) (Version_of_Cfg s)
                (EpochNum (Ckpt ckpt)) lch (Bitmap (Ckpt ckpt)) (BlsMultiSig (Ckpt ckpt))
                (submitterAddress s))) (\<lambda>(data1, data2).
     andThen (getTopTwoUTXOs s) (\<lambda>(utxo1, utxo2).
     andThen (buildTxWithData s utxo1 data1) (\<lambda>tx1.
     andThen (sendTxToBTC s tx1) (\<lambda>txid1.
     andThen (buildTxWithData s utxo2 data2) (\<lambda>tx2.
     andThen (sendTxToBTC s tx2) (\<lambda>txid2.
     lib_call (Inr ()))))))))"

definition SubmitCkpt ::
  "'w Submitter \<Rightarrow> RawCheckpointWithMeta \<Rightarrow> 'w world \<Rightarrow> (error + unit) \<times> 'w world" where
  "SubmitCkpt s ckpt w =
     (case ConvertCkptToTwoTxAndSubmit s ckpt (emit (LogSubmitting (EpochNum (Ckpt ckpt))) w) of
        (Inl err, w') \<Rightarrow> (Inl err, w')
      | (Inr _, w') \<Rightarrow> (Inr (), emit (LogSubmitted (EpochNum (Ckpt ckpt))) w'))"

section \<open>The sealed-checkpoint worker\<close>

text \<open>
  What the \<open>select\<close> of the worker's loop receives, in the order it receives it: a
  checkpoint from \<open>rawCkptChan\<close> or the quit signal. The loop ends at the quit signal; a
  worker whose list is used up is waiting in the \<open>select\<close>.
\<close>

datatype received = RecvCkpt RawCheckpointWithMeta | RecvQuit

definition handleCkpt :: "'w Submitter \<Rightarrow> RawCheckpointWithMeta \<Rightarrow> 'w world \<Rightarrow> 'w world" where
  "handleCkpt s ckpt w =
     (if Status ckpt = Sealed then
        (case SubmitCkpt s ckpt (emit (LogSealedFound (EpochNum (Ckpt ckpt))) w) of
           (Inl err, w') \<Rightarrow> emit (LogSubmitFailed (EpochNum (Ckpt ckpt)) err) w'
         | (Inr _, w') \<Rightarrow> w')
      else w)"

fun sealedCkptHandler :: "'w Submitter \<Rightarrow> received list \<Rightarrow> 'w world \<Rightarrow> 'w world" where
  "sealedCkptHandler s [] w = w"
| "sealedCkptHandler s (RecvQuit # rest) w = w"
| "sealedCkptHandler s (RecvCkpt ckpt # rest) w = sealedCkptHandler s rest (handleCkpt s ckpt w)"

text \<open>
  Reading a trace: the epochs for which \<open>SubmitCkpt\<close> was entered, in order; whether an
  entry is a broadcast; and the checkpoints a worker receives before the quit signal.
\<close>

fun submissions :: "event list \<Rightarrow> 64 word list" where
  "submissions [] = []"
| "submissions (LogSubmitting epoch # es) = epoch # submissions es"
| "submissions (_ # es) = submissions es"

fun is_send :: "event \<Rightarrow> bool" where
  "is_send (CallSendRawTransaction _ _) = True"
| "is_send _ = False"

fun before_quit :: "received list \<Rightarrow> RawCheckpointWithMeta list" where
  "before_quit [] = []"
| "before_quit (RecvQuit # _) = []"
| "before_quit (RecvCkpt ckpt # rest) = ckpt # before_quit rest"

section \<open>The reporter: block events\<close>

record BlockHeader =
  Header_Version :: int
  PrevBlock :: Hash
  MerkleRoot :: Hash
  Timestamp :: int
  Bits :: "32 word"
  Nonce :: "32 word"

record IndexedBlock =
  Height :: int
  Header :: BlockHeader
  Txs :: "bytes list"

record MsgBlock =
  MsgBlock_Header :: BlockHeader
  Transactions :: "bytes list"

datatype EventType = BlockDisconnected | BlockConnected

record BlockEvent =
  EventType :: EventType
  Event_Height :: int
  Event_Header :: BlockHeader

text \<open>
  The cache, the bootstrap procedure, the extraction of headers and checkpoints and the
  two clients are not among the sources; the handlers receive them as parameters that act
  on a state \<open>'r\<close>. \<open>MustGetAddr\<close> and \<open>GetBlockByHash\<close> can fail, \<open>Tip\<close> reads the cache and
  gives \<open>None\<close> for Go's nil, \<open>RemoveLast\<close> returns an error or nothing; of the others the
  handlers use no result. \<open>BlockHash\<close> is the hash of a header.
\<close>

record 'r Reporter =
  BlockHash :: "BlockHeader \<Rightarrow> Hash"
  MustGetAddr :: "'r \<Rightarrow> (error + string) \<times> 'r"
  GetBlockByHash :: "Hash \<Rightarrow> 'r \<Rightarrow> (error + IndexedBlock \<times> MsgBlock) \<times> 'r"
  Tip :: "'r \<Rightarrow> IndexedBlock option"
  Bootstrap :: "bool \<Rightarrow> 'r \<Rightarrow> 'r"
  Add :: "IndexedBlock \<Rightarrow> 'r \<Rightarrow> 'r"
  RemoveLast :: "'r \<Rightarrow> (error + unit) \<times> 'r"
  processHeaders :: "string \<Rightarrow> IndexedBlock list \<Rightarrow> 'r \<Rightarrow> 'r"
  processCheckpoints :: "string \<Rightarrow> IndexedBlock list \<Rightarrow> 'r \<Rightarrow> 'r"

text \<open>The calls that change something and the log lines of a handler, in order.\<close>

datatype rep_event =
    CallMustGetAddr
  | CallGetBlockByHash Hash
  | CallBootstrap bool
  | CallAdd IndexedBlock
  | CallRemoveLast
  | CallProcessHeaders string "IndexedBlock list"
  | CallProcessCheckpoints string "IndexedBlock list"
  | LogFailedToGetBlock Hash error
  | LogCacheEmpty
  | LogCacheNotUpToDate
  | LogFailedToRemoveLast error

record 'r rep_world =
  rtrace :: "rep_event list"
  rext :: 'r

definition rlog :: "rep_event \<Rightarrow> 'r rep_world \<Rightarrow> 'r rep_world" where
  "rlog e w = w\<lparr>rtrace := rtrace w @ [e]\<rparr>"

definition rcall :: "rep_event \<Rightarrow> ('r \<Rightarrow> 'a \<times> 'r) \<Rightarrow> 'r rep_world \<Rightarrow> 'a \<times> 'r rep_world" where
  "rcall e f w = (case f (rext w) of (a, x) \<Rightarrow> (a, \<lparr>rtrace = rtrace w @ [e], rext = x\<rparr>))"

definition rdo :: "rep_event \<Rightarrow> ('r \<Rightarrow> 'r) \<Rightarrow> 'r rep_world \<Rightarrow> 'r rep_world" where
  "rdo e f w = \<lparr>rtrace = rtrace w @ [e], rext = f (rext w)\<rparr>"

text \<open>A handler returns nothing: it comes back or it panics.\<close>

datatype outcome = Returned | Panicked error

definition handleConnectedBlocks ::
  "'r Reporter \<Rightarrow> BlockEvent \<Rightarrow> 'r rep_world \<Rightarrow> outcome \<times> 'r rep_world" where
  "handleConnectedBlocks r event w =
     (case rcall CallMustGetAddr (MustGetAddr r) w of
        (Inl err, w1) \<Rightarrow> (Panicked err, w1)
      | (Inr signer, w1) \<Rightarrow>
          let blockHash = BlockHash r (Event_Header event) in
          (case rcall (CallGetBlockByHash blockHash) (GetBlockByHash r blockHash) w1 of
             (Inl err, w2) \<Rightarrow> (Panicked err, rlog (LogFailedToGetBlock blockHash err) w2)
           | (Inr (ib, mBlock), w2) \<Rightarrow>
               (case Tip r (rext w2) of
                  None \<Rightarrow> (Returned, rdo (CallBootstrap True) (Bootstrap r True) (rlog LogCacheEmpty w2))
                | Some cacheTip \<Rightarrow>
                    let parentHash = PrevBlock (MsgBlock_Header mBlock) in
                    if parentHash \<noteq> BlockHash r (Header cacheTip) then
                      (Returned,
                       rdo (CallBootstrap True) (Bootstrap r True) (rlog LogCacheNotUpToDate w2))
                    else
                      let w3 = rdo (CallAdd ib) (Add r ib) w2;
                          w4 = rdo (CallProcessHeaders signer [ib]) (processHeaders r signer [ib]) w3;
                          w5 = rdo (CallProcessCheckpoints signer [ib])
                                 (processCheckpoints r signer [ib]) w4
                      in (Returned, w5))))"

definition handleDisconnectedBlocks ::
  "'r Reporter \<Rightarrow> BlockEvent \<Rightarrow> 'r rep_world \<Rightarrow> outcome \<times> 'r rep_world" where
  "handleDisconnectedBlocks r event w =
     (case Tip r (rext w) of
        None \<Rightarrow> (Returned, rdo (CallBootstrap True) (Bootstrap r True) (rlog LogCacheEmpty w))
      | Some cacheTip \<Rightarrow>
          if BlockHash r (Event_Header event) \<noteq> BlockHash r (Header cacheTip) then
            (Returned, rdo (CallBootstrap True) (Bootstrap r True) (rlog LogCacheNotUpToDate w))
          else
            (case rcall CallRemoveLast (RemoveLast r) w of
               (Inl err, w1) \<Rightarrow>
                 (Panicked err,
                  rdo (CallBootstrap True) (Bootstrap r True) (rlog (LogFailedToRemoveLast err) w1))
             | (Inr _, w1) \<Rightarrow> (Returned, w1)))"

section \<open>A wallet and a library for running the model\<close>

text \<open>
  A stand-in for the wallet, in the manner of \<open>MockBTCWallet\<close>: it lists the given
  outputs, every call succeeds, and \<open>SendRawTransaction\<close> accepts the first \<open>n\<close>
  transactions and rejects the later ones. The state of its world is the number of
  transactions sent to it. The library stand-in sorts by insertion, as Go does on a short
  slice, and every other function succeeds.
\<close>

definition mock_lib :: SubmitterLib where
  "mock_lib =
     \<lparr>sort_Slice = insertionSort_func,
      Marshal = Inr,
      EncodeCheckpointData = (\<lambda>tag ver epoch lch bitmap sig addr. Inr (0 # lch, 1 # bitmap)),
      NewHashFromStr = Inr,
      OP_RETURN_Script = (\<lambda>data. Inr (0x6a # data)),
      hex_DecodeString = (\<lambda>str. Inr []),
      PayToAddrScript = (\<lambda>addr. Inr [0x76]),
      DecodeAddress = (\<lambda>addr params. Inr addr),
      txscript_SignatureScript = (\<lambda>tx idx script key compress. Inr [0x30]),
      Serialize = (\<lambda>tx. Inr [])\<rparr>"

definition mock_wallet :: "Amount \<Rightarrow> ListUnspentResult list \<Rightarrow> nat \<Rightarrow> nat BTCWallet" where
  "mock_wallet fee utxos n =
     \<lparr>wallet_Cfg = \<lparr>TxFee = fee, WalletPassword = ''pass'', WalletLockTime = 10\<rparr>,
      ListUnspent = (\<lambda>x. (Inr utxos, x)),
      GetRawChangeAddress = (\<lambda>acct x. (Inr ''change'', x)),
      WalletPassphrase = (\<lambda>pass secs x. (Inr (), x)),
      DumpPrivKey = (\<lambda>addr x. (Inr [], x)),
      SendRawTransaction =
        (\<lambda>tx allowHighFees x. (if x < n then Inr ''txid'' else Inl (Error ''rejected''), Suc x))\<rparr>"

definition mock_submitter :: "Amount \<Rightarrow> ListUnspentResult list \<Rightarrow> nat \<Rightarrow> nat Submitter" where
  "mock_submitter fee utxos n =
     \<lparr>btcWallet = mock_wallet fee utxos n, lib = mock_lib, Tag = [], Version_of_Cfg = 0,
      NetParams = ''simnet'', account = ''default'', submitterAddress = []\<rparr>"

definition utxo :: "string \<Rightarrow> 32 word \<Rightarrow> float64 \<Rightarrow> bool \<Rightarrow> ListUnspentResult" where
  "utxo txid vout amount spendable =
     \<lparr>TxID = txid, Vout = vout, Address = ''addr'', ScriptPubKey = ''76a9'',
      Amount = amount, Spendable = spendable\<rparr>"

definition world0 :: "nat world" where
  "world0 = \<lparr>trace = [], ext = 0\<rparr>"

definition checkpoint :: "64 word \<Rightarrow> CheckpointStatus \<Rightarrow> RawCheckpointWithMeta" where
  "checkpoint epoch st =
     \<lparr>Ckpt = \<lparr>EpochNum = epoch, LastCommitHash = [1], Bitmap = [2], BlsMultiSig = [3]\<rparr>,
      Status = st\<rparr>"

text \<open>
  A stand-in for the reporter's collaborators. Its state is the cache, oldest block
  first, and the number of blocks handed to the extraction of headers and of checkpoints.
  A header's hash is read from its \<open>MerkleRoot\<close>; blocks are fetched from a fixed list;
  \<open>Bootstrap\<close> replaces the cache by that list. With \<open>racy\<close> set,
  \<open>RemoveLast\<close> fails as it would on a cache emptied behind the handler's back.
\<close>

record mock_state =
  cache :: "IndexedBlock list"
  headers_seen :: nat
  ckpts_seen :: nat

definition mock_reporter :: "IndexedBlock list \<Rightarrow> bool \<Rightarrow> mock_state Reporter" where
  "mock_reporter chain racy =
     \<lparr>BlockHash = MerkleRoot,
      MustGetAddr = (\<lambda>x. (Inr ''signer'', x)),
      GetBlockByHash = (\<lambda>h x.
        (case filter (\<lambda>b. MerkleRoot (Header b) = h) chain of
           [] \<Rightarrow> Inl (Error ''block not found'')
         | b # _ \<Rightarrow> Inr (b, \<lparr>MsgBlock_Header = Header b, Transactions = Txs b\<rparr>), x)),
      Tip = (\<lambda>x. if cache x = [] then None else Some (last (cache x))),
      Bootstrap = (\<lambda>force x. x\<lparr>cache := chain\<rparr>),
      Add = (\<lambda>b x. x\<lparr>cache := cache x @ [b]\<rparr>),
      RemoveLast = (\<lambda>x. if racy \<or> cache x = [] then (Inl (Error ''empty cache''), x)
                         else (Inr (), x\<lparr>cache := butlast (cache x)\<rparr>)),
      processHeaders = (\<lambda>signer ibs x. x\<lparr>headers_seen := headers_seen x + length ibs\<rparr>),
      processCheckpoints = (\<lambda>signer ibs x. x\<lparr>ckpts_seen := ckpts_seen x + length ibs\<rparr>)\<rparr>"

definition block :: "int \<Rightarrow> Hash \<Rightarrow> Hash \<Rightarrow> IndexedBlock" where
  "block h prev hash =
     \<lparr>Height = h,
      Header = \<lparr>Header_Version = 1, PrevBlock = prev, MerkleRoot = hash, Timestamp = 0,
                Bits = 0, Nonce = 0\<rparr>,
      Txs = []\<rparr>"

definition connected :: "IndexedBlock \<Rightarrow> BlockEvent" where
  "connected b = \<lparr>EventType = BlockConnected, Event_Height = Height b, Event_Header = Header b\<rparr>"

definition disconnected :: "IndexedBlock \<Rightarrow> BlockEvent" where
  "disconnected b =
     \<lparr>EventType = BlockDisconnected, Event_Height = Height b, Event_Header = Header b\<rparr>"

definition rep_world0 :: "IndexedBlock list \<Rightarrow> mock_state rep_world" where
  "rep_world0 blocks = \<lparr>rtrace = [], rext = \<lparr>cache = blocks, headers_seen = 0, ckpts_seen = 0\<rparr>\<rparr>"

section \<open>The sorting routine rearranges its input\<close>

lemma mset_sift: "mset (sift lt ys x) = add_mset x (mset ys)"
  by (induction ys) auto

lemma mset_foldl_sift: "mset (foldl (sift lt) acc xs) = mset acc + mset xs"
  by (induction xs arbitrary: acc) (auto simp: mset_sift)

lemma mset_insertionSort_func: "mset (insertionSort_func lt xs) = mset xs"
  by (simp add: insertionSort_func_def mset_foldl_sift)

section \<open>Sequences of fallible steps\<close>

lemma andThen_Inr:
  "andThen m f w = (Inr b, w') \<longleftrightarrow> (\<exists>a w1. m w = (Inr a, w1) \<and> f a w1 = (Inr b, w'))"
  by (auto simp: andThen_def split: prod.splits sum.splits)

lemma andThen_Inl:
  "andThen m f w = (Inl e, w') \<longleftrightarrow>
     m w = (Inl e, w') \<or> (\<exists>a w1. m w = (Inr a, w1) \<and> f a w1 = (Inl e, w'))"
  by (auto simp: andThen_def split: prod.splits sum.splits)

lemma lib_call_eq: "lib_call r w = (r', w') \<longleftrightarrow> r' = r \<and> w' = w"
  by (auto simp: lib_call_def)

lemma call_eq:
  "call e f w = (r, w') \<longleftrightarrow> (\<exists>x. f (ext w) = (r, x) \<and> w' = \<lparr>trace = trace w @ [e], ext = x\<rparr>)"
  by (auto simp: call_def split: prod.splits)

lemma lib_call_adds: "\<exists>es. trace (snd (lib_call r w)) = trace w @ es \<and> list_all P es"
  by (simp add: lib_call_def)

lemma call_adds: "P e \<Longrightarrow> \<exists>es. trace (snd (call e f w)) = trace w @ es \<and> list_all P es"
  by (simp add: call_def split: prod.splits)

lemma andThen_adds:
  assumes m: "\<And>w. \<exists>es. trace (snd (m w)) = trace w @ es \<and> list_all P es"
    and f: "\<And>a w. \<exists>es. trace (snd (f a w)) = trace w @ es \<and> list_all P es"
  shows "\<exists>es. trace (snd (andThen m f w)) = trace w @ es \<and> list_all P es"
proof (cases "m w")
  case (Pair r w1)
  from m [of w] Pair obtain es1 where es1: "trace w1 = trace w @ es1" "list_all P es1"
    by auto
  show ?thesis
  proof (cases r)
    case (Inl err)
    with Pair es1 show ?thesis
      by (simp add: andThen_def)
  next
    case (Inr a)
    from f [of a w1] obtain es2 where
      es2: "trace (snd (f a w1)) = trace w1 @ es2" "list_all P es2"
      by auto
    with Pair Inr es1 show ?thesis
      by (simp add: andThen_def)
  qed
qed


lemma getTopTwoUTXOs_adds:
  assumes "P CallListUnspent"
  shows "\<exists>es. trace (snd (getTopTwoUTXOs s w)) = trace w @ es \<and> list_all P es"
  using assms
  by (auto simp: getTopTwoUTXOs_def call_def Let_def split: prod.splits sum.splits)

lemma buildTxWithData_adds:
  assumes "P (CallGetRawChangeAddress (account s))"
    and "\<And>p t. P (CallWalletPassphrase p t)"
    and "\<And>a. P (CallDumpPrivKey a)"
  shows "\<exists>es. trace (snd (buildTxWithData s u data w)) = trace w @ es \<and> list_all P es"
  unfolding buildTxWithData_def Let_def
  by (intro andThen_adds lib_call_adds call_adds assms)

lemma sendTxToBTC_adds:
  assumes "P (CallSendRawTransaction tx True)"
  shows "\<exists>es. trace (snd (sendTxToBTC s tx w)) = trace w @ es \<and> list_all P es"
  unfolding sendTxToBTC_def
  by (intro andThen_adds lib_call_adds call_adds assms)

lemma ConvertCkptToTwoTxAndSubmit_adds:
  assumes "P CallListUnspent" and "\<And>a. P (CallGetRawChangeAddress a)"
    and "\<And>p t. P (CallWalletPassphrase p t)" and "\<And>a. P (CallDumpPrivKey a)"
    and "\<And>tx b. P (CallSendRawTransaction tx b)"
  shows "\<exists>es. trace (snd (ConvertCkptToTwoTxAndSubmit s ckpt w)) = trace w @ es \<and> list_all P es"
  unfolding ConvertCkptToTwoTxAndSubmit_def split_def
  by (intro andThen_adds lib_call_adds getTopTwoUTXOs_adds buildTxWithData_adds
      sendTxToBTC_adds assms)

lemma sendTxToBTC_eq:
  "sendTxToBTC s tx w = (r, w') \<Longrightarrow> trace w' = trace w @ [CallSendRawTransaction tx True]"
  by (auto simp: sendTxToBTC_def andThen_def lib_call_def call_def split: prod.splits sum.splits)

lemma filter_is_send_quiet: "list_all (\<lambda>e. \<not> is_send e) es \<Longrightarrow> filter is_send es = []"
  by (induction es) simp_all

section \<open>Amounts\<close>

lemma floor_rat_numeral: "\<lfloor>(numeral a :: rat) / numeral b\<rfloor> = numeral a div numeral b"
  using floor_divide_of_int_eq [of "numeral a" "numeral b", where ?'a = rat] by simp




section \<open>The stand-ins, evaluated\<close>

lemmas mock_defs = mock_submitter_def mock_wallet_def mock_lib_def world0_def utxo_def

lemma mock_Marshal: "Marshal (lib (mock_submitter fee utxos n)) x = Inr x"
  by (simp add: mock_defs)

lemma mock_Encode:
  "EncodeCheckpointData (lib (mock_submitter fee utxos n)) tag ver epoch lch bitmap sig addr =
     Inr (0 # lch, 1 # bitmap)"
  by (simp add: mock_defs)


lemma mock_select:
  "getTopTwoUTXOs (mock_submitter 100 [utxo ''bb'' 0 5 True, utxo ''aa'' 1 10 True] n) world0 =
     (Inr (utxo ''aa'' 1 10 True, utxo ''bb'' 0 5 True), \<lparr>trace = [CallListUnspent], ext = 0\<rparr>)"
  by (simp add: getTopTwoUTXOs_def mock_defs call_def insertionSort_func_def utxo_less_def
      ToBTC_def SatoshiPerBitcoin_def)

lemma mock_build:
  "buildTxWithData (mock_submitter fee utxos n) u data w =
     (Inr \<lparr>Version = 1,
           TxIn = [\<lparr>PreviousOutPoint = \<lparr>OutPoint_Hash = TxID u, OutPoint_Index = 0\<rparr>,
                    SignatureScript = Some [0x30], Witness = None, Sequence = 0xffffffff\<rparr>],
           TxOut = [\<lparr>Value = 0, PkScript = 0x6a # data\<rparr>,
                    \<lparr>Value = int64 (round_Amount (Amount u * SatoshiPerBitcoin) - fee),
                     PkScript = [0x76]\<rparr>],
           LockTime = 0\<rparr>,
      \<lparr>trace = trace w @ [CallGetRawChangeAddress ''default'', CallWalletPassphrase ''pass'' 10,
                CallDumpPrivKey (Some (Address u))], ext = ext w\<rparr>)"
  by (simp add: buildTxWithData_def mock_defs andThen_def lib_call_def call_def NewAmount_def
      NewMsgTx_def TxVersion_def NewOutPoint_def NewTxIn_def NewTxOut_def AddTxIn_def AddTxOut_def
      MaxTxInSequenceNum_def)

lemma mock_build_vout1:
  "buildTxWithData (mock_submitter 100 utxos n) (utxo ''aa'' 1 10 True) [7] world0 =
     (Inr \<lparr>Version = 1,
           TxIn = [\<lparr>PreviousOutPoint = \<lparr>OutPoint_Hash = ''aa'', OutPoint_Index = 0\<rparr>,
                    SignatureScript = Some [0x30], Witness = None, Sequence = 0xffffffff\<rparr>],
           TxOut = [\<lparr>Value = 0, PkScript = [0x6a, 7]\<rparr>,
                    \<lparr>Value = 999999900, PkScript = [0x76]\<rparr>],
           LockTime = 0\<rparr>,
      \<lparr>trace = [CallGetRawChangeAddress ''default'', CallWalletPassphrase ''pass'' 10,
                CallDumpPrivKey (Some ''addr'')], ext = 0\<rparr>)"
  by (simp add: buildTxWithData_def mock_defs andThen_def lib_call_def call_def NewAmount_def
      round_Amount_def trunc_def int64_def SatoshiPerBitcoin_def NewMsgTx_def TxVersion_def
      NewOutPoint_def NewTxIn_def NewTxOut_def AddTxIn_def AddTxOut_def MaxTxInSequenceNum_def
      floor_rat_numeral)

lemma mock_send:
  "sendTxToBTC (mock_submitter fee utxos n) tx w =
     (if ext w < n then Inr ''txid'' else Inl (Error ''rejected''),
      \<lparr>trace = trace w @ [CallSendRawTransaction tx True], ext = Suc (ext w)\<rparr>)"
  by (simp add: sendTxToBTC_def mock_defs andThen_def lib_call_def call_def)

lemma mock_send_ok:
  "ext w < n \<Longrightarrow> sendTxToBTC (mock_submitter fee utxos n) tx w =
     (Inr ''txid'', \<lparr>trace = trace w @ [CallSendRawTransaction tx True], ext = Suc (ext w)\<rparr>)"
  by (simp add: mock_send)


lemma checkpoint_Sealed: "Status (checkpoint epoch Sealed) = Sealed"
  by (simp add: checkpoint_def)

lemma mock_submit_fails:
  "SubmitCkpt (mock_submitter 100 [utxo ''aa'' 1 10 True] 2) (checkpoint 7 Sealed)
       (emit (LogSealedFound (EpochNum (Ckpt (checkpoint 7 Sealed)))) world0) =
     (Inl (Error ''insufficient unspent transactions''),
      \<lparr>trace = [LogSealedFound 7, LogSubmitting 7, CallListUnspent], ext = 0\<rparr>)"
  by (simp add: SubmitCkpt_def ConvertCkptToTwoTxAndSubmit_def getTopTwoUTXOs_def andThen_def
      lib_call_def call_def emit_def mock_defs checkpoint_def)

lemmas mock_reporter_defs = mock_reporter_def block_def connected_def disconnected_def rep_world0_def

section \<open>Selection of the two outputs\<close>

text \<open>
  C1. The selection is claimed to rank every spendable output before every non-spendable
  one, and outputs of equal spendability by amount, largest first. On the wallet list whose
  first entry is a non-spendable output of 10 BTC and whose second entry is a spendable
  output of 5 BTC, with a fee of 100 satoshis, the code returns the non-spendable output
  as its first choice: the comparison function is false in both directions on this pair,
  so the sort leaves the pair as it came. On two non-spendable outputs of 10 and 20 BTC it
  returns the smaller one first, for the same reason.
\<close>

theorem getTopTwoUTXOs_nonspendable_first:
  "fst (getTopTwoUTXOs (mock_submitter 100 [utxo ''aa'' 1 10 False, utxo ''bb'' 0 5 True] 2) world0)
     = Inr (utxo ''aa'' 1 10 False, utxo ''bb'' 0 5 True) \<and>
   fst (getTopTwoUTXOs (mock_submitter 100 [utxo ''aa'' 1 10 False, utxo ''cc'' 0 20 False] 2) world0)
     = Inr (utxo ''aa'' 1 10 False, utxo ''cc'' 0 20 False)"
  by (simp add: getTopTwoUTXOs_def mock_defs call_def insertionSort_func_def utxo_less_def
      ToBTC_def SatoshiPerBitcoin_def)


text \<open>
  C4. The wallet lists a spendable output \<open>bb\<close> of 5 BTC, a non-spendable output \<open>aa\<close> of
  10 BTC and a spendable output \<open>cc\<close> of one satoshi; the fee is 100 satoshis. Under the
  ranking of the specification \<open>bb\<close> is first and \<open>cc\<close> second, and \<open>cc\<close> is below the
  fee, so the selection is claimed to fail with "insufficient fees". The code returns \<open>bb\<close>
  and \<open>aa\<close> without error: its comparison function leaves the list as it came, and the
  fee is tested on \<open>aa\<close>, not on \<open>cc\<close>.
\<close>

theorem getTopTwoUTXOs_passes_low_spendable:
  "fst (getTopTwoUTXOs
     (mock_submitter 100
        [utxo ''bb'' 0 5 True, utxo ''aa'' 1 10 False, utxo ''cc'' 0 (1 / 100000000) True] 2)
     world0) = Inr (utxo ''bb'' 0 5 True, utxo ''aa'' 1 10 False) \<and>
   insertionSort_func spec_rank_less
     [utxo ''bb'' 0 5 True, utxo ''aa'' 1 10 False, utxo ''cc'' 0 (1 / 100000000) True] =
     [utxo ''bb'' 0 5 True, utxo ''cc'' 0 (1 / 100000000) True, utxo ''aa'' 1 10 False] \<and>
   Amount (utxo ''cc'' 0 (1 / 100000000) True) < ToBTC 100"
  by (simp add: getTopTwoUTXOs_def mock_defs call_def insertionSort_func_def utxo_less_def
      spec_rank_less_def ToBTC_def SatoshiPerBitcoin_def)

text \<open>
  C5. The selection depends on the wallet's list, the sorting function and the fee only:
  two runs that receive the same list, in whatever state of the world and with whatever
  else in the submitter, return the same result.
\<close>

theorem getTopTwoUTXOs_deterministic:
  assumes "ListUnspent (btcWallet s1) (ext w1) = (Inr utxos, x1)"
    and "ListUnspent (btcWallet s2) (ext w2) = (Inr utxos, x2)"
    and "sort_Slice (lib s1) = sort_Slice (lib s2)"
    and "TxFee (wallet_Cfg (btcWallet s1)) = TxFee (wallet_Cfg (btcWallet s2))"
  shows "fst (getTopTwoUTXOs s1 w1) = fst (getTopTwoUTXOs s2 w2)"
  using assms by (simp add: getTopTwoUTXOs_def call_def Let_def)

text \<open>
  Two runs on the same list, started in different states of the world.
\<close>

theorem getTopTwoUTXOs_deterministic_witness:
  "fst (getTopTwoUTXOs (mock_submitter 100 [utxo ''aa'' 0 3 True, utxo ''bb'' 0 5 True] 2) world0)
     = fst (getTopTwoUTXOs (mock_submitter 100 [utxo ''aa'' 0 3 True, utxo ''bb'' 0 5 True] 0)
         \<lparr>trace = [CallListUnspent], ext = 7\<rparr>)"
  using getTopTwoUTXOs_deterministic [of "mock_submitter 100 [utxo ''aa'' 0 3 True, utxo ''bb'' 0 5 True] 2"
      world0 "[utxo ''aa'' 0 3 True, utxo ''bb'' 0 5 True]" 0
      "mock_submitter 100 [utxo ''aa'' 0 3 True, utxo ''bb'' 0 5 True] 0"
      "\<lparr>trace = [CallListUnspent], ext = 7\<rparr>" 7]
  by (simp add: mock_defs)


section \<open>The transaction built for an output\<close>

lemma buildTxWithData_TxIn:
  assumes "buildTxWithData s u data w = (Inr tx, w')"
  shows "\<exists>h sig.
     NewHashFromStr (lib s) (TxID u) = Inr h \<and>
     TxIn tx = [\<lparr>PreviousOutPoint = \<lparr>OutPoint_Hash = h, OutPoint_Index = 0\<rparr>,
                SignatureScript = Some sig, Witness = None, Sequence = MaxTxInSequenceNum\<rparr>]"
  using assms
  by (auto simp: buildTxWithData_def Let_def andThen_Inr lib_call_eq call_eq NewAmount_def
      NewMsgTx_def NewOutPoint_def NewTxIn_def NewTxOut_def AddTxIn_def AddTxOut_def)


lemma buildTxWithData_Vout:
  "buildTxWithData s (u\<lparr>Vout := v\<rparr>) data = buildTxWithData s u data"
  by (simp add: buildTxWithData_def)

text \<open>
  C3. Whenever \<open>buildTxWithData\<close> returns a transaction, that transaction has one input,
  and its outpoint is the hash of the output's \<open>TxID\<close> with index 0. The output's own
  \<open>Vout\<close> is not read: changing it changes nothing in the result. So for an output that
  sits at a non-zero index, no input of the transaction points at that index.
\<close>

theorem buildTxWithData_outpoint_index_0:
  assumes "buildTxWithData s u data w = (Inr tx, w')"
  shows "(\<exists>h sig. NewHashFromStr (lib s) (TxID u) = Inr h \<and>
            TxIn tx = [\<lparr>PreviousOutPoint = NewOutPoint h 0, SignatureScript = Some sig,
                       Witness = None, Sequence = MaxTxInSequenceNum\<rparr>]) \<and>
         (\<forall>v. buildTxWithData s (u\<lparr>Vout := v\<rparr>) data w = (Inr tx, w')) \<and>
         (Vout u \<noteq> 0 \<longrightarrow>
            (\<forall>ti \<in> set (TxIn tx). OutPoint_Index (PreviousOutPoint ti) \<noteq> Vout u))"
proof -
  from buildTxWithData_TxIn [OF assms] obtain h sig where
    h: "NewHashFromStr (lib s) (TxID u) = Inr h" and
    ti: "TxIn tx = [\<lparr>PreviousOutPoint = \<lparr>OutPoint_Hash = h, OutPoint_Index = 0\<rparr>,
                    SignatureScript = Some sig, Witness = None, Sequence = MaxTxInSequenceNum\<rparr>]"
    by blast
  have "\<forall>v. buildTxWithData s (u\<lparr>Vout := v\<rparr>) data w = (Inr tx, w')"
    using assms by (simp add: buildTxWithData_Vout)
  moreover have "Vout u \<noteq> 0 \<longrightarrow>
      (\<forall>ti \<in> set (TxIn tx). OutPoint_Index (PreviousOutPoint ti) \<noteq> Vout u)"
    by (auto simp: ti)
  ultimately show ?thesis
    using h ti by (simp add: NewOutPoint_def)
qed

text \<open>
  An output at index 1 of transaction \<open>aa\<close>: the input built for it spends index 0.
\<close>

theorem buildTxWithData_outpoint_index_0_witness:
  "Vout (utxo ''aa'' 1 10 True) = 1 \<and>
   map PreviousOutPoint (TxIn (projr (fst (buildTxWithData (mock_submitter 100 [] 2)
        (utxo ''aa'' 1 10 True) [7] world0)))) = [\<lparr>OutPoint_Hash = ''aa'', OutPoint_Index = 0\<rparr>] \<and>
   buildTxWithData (mock_submitter 100 [] 2) (utxo ''aa'' 1 10 True\<lparr>Vout := 0\<rparr>) [7] world0 =
     buildTxWithData (mock_submitter 100 [] 2) (utxo ''aa'' 1 10 True) [7] world0"
  using buildTxWithData_outpoint_index_0 [OF mock_build_vout1, of "[]" 2]
  by (simp add: mock_build_vout1) (simp add: utxo_def)



section \<open>Two transactions, one after the other\<close>

text \<open>
  C8. Once the first transaction has been built and its broadcast has succeeded, the
  broadcast is the last entry of the trace, and the rest of \<open>ConvertCkptToTwoTxAndSubmit\<close> is
  the build of the second transaction, started in the world that broadcast left, followed
  by its broadcast. An error of either step is returned as it is, with the world reached.
  The trace after the first broadcast only grows, and the only broadcast in what is added
  is that of the second transaction, when it was built: nothing takes the first
  transaction back or sends it again.
\<close>

theorem ConvertCkptToTwoTxAndSubmit_not_atomic:
  assumes m: "Marshal (lib s) (LastCommitHash (Ckpt ckpt)) = Inr lch"
    and e: "EncodeCheckpointData (lib s) (Tag s) (Version_of_Cfg s) (EpochNum (Ckpt ckpt)) lch
              (Bitmap (Ckpt ckpt)) (BlsMultiSig (Ckpt ckpt)) (submitterAddress s) = Inr (data1, data2)"
    and sel: "getTopTwoUTXOs s w = (Inr (utxo1, utxo2), w1)"
    and b1: "buildTxWithData s utxo1 data1 w1 = (Inr tx1, w2)"
    and s1: "sendTxToBTC s tx1 w2 = (Inr txid1, w3)"
  shows "trace w3 = trace w2 @ [CallSendRawTransaction tx1 True] \<and>
         ConvertCkptToTwoTxAndSubmit s ckpt w =
           (case buildTxWithData s utxo2 data2 w3 of
              (Inl err, w4) \<Rightarrow> (Inl err, w4)
            | (Inr tx2, w4) \<Rightarrow>
                (case sendTxToBTC s tx2 w4 of
                   (Inl err, w5) \<Rightarrow> (Inl err, w5)
                 | (Inr txid2, w5) \<Rightarrow> (Inr (), w5))) \<and>
         (\<exists>es. trace (snd (ConvertCkptToTwoTxAndSubmit s ckpt w)) = trace w3 @ es \<and>
               filter is_send es =
                 (case fst (buildTxWithData s utxo2 data2 w3) of
                    Inl err \<Rightarrow> []
                  | Inr tx2 \<Rightarrow> [CallSendRawTransaction tx2 True]))"
proof -
  have sent: "trace w3 = trace w2 @ [CallSendRawTransaction tx1 True]"
    using s1 by (rule sendTxToBTC_eq)
  have run: "ConvertCkptToTwoTxAndSubmit s ckpt w =
           (case buildTxWithData s utxo2 data2 w3 of
              (Inl err, w4) \<Rightarrow> (Inl err, w4)
            | (Inr tx2, w4) \<Rightarrow>
                (case sendTxToBTC s tx2 w4 of
                   (Inl err, w5) \<Rightarrow> (Inl err, w5)
                 | (Inr txid2, w5) \<Rightarrow> (Inr (), w5)))"
    by (simp add: ConvertCkptToTwoTxAndSubmit_def andThen_def lib_call_def m e sel b1 s1
        split: prod.splits sum.splits)
  obtain r2 w4 where b2: "buildTxWithData s utxo2 data2 w3 = (r2, w4)"
    by (cases "buildTxWithData s utxo2 data2 w3")
  obtain es2 where es2: "trace w4 = trace w3 @ es2" and quiet: "list_all (\<lambda>e. \<not> is_send e) es2"
    using buildTxWithData_adds [of "\<lambda>e. \<not> is_send e" s utxo2 data2 w3] b2 by auto
  have rest: "\<exists>es. trace (snd (ConvertCkptToTwoTxAndSubmit s ckpt w)) = trace w3 @ es \<and>
               filter is_send es =
                 (case fst (buildTxWithData s utxo2 data2 w3) of
                    Inl err \<Rightarrow> []
                  | Inr tx2 \<Rightarrow> [CallSendRawTransaction tx2 True])"
  proof (cases r2)
    case (Inl err)
    then show ?thesis
      using es2 filter_is_send_quiet [OF quiet] by (simp add: run b2)
  next
    case (Inr tx2)
    obtain r3 w5 where s2: "sendTxToBTC s tx2 w4 = (r3, w5)"
      by (cases "sendTxToBTC s tx2 w4")
    have t5: "trace w5 = trace w3 @ es2 @ [CallSendRawTransaction tx2 True]"
      using sendTxToBTC_eq [OF s2] es2 by simp
    have "trace (snd (ConvertCkptToTwoTxAndSubmit s ckpt w)) = trace w5"
      by (cases r3) (simp_all add: run b2 Inr s2)
    then show ?thesis
      using t5 filter_is_send_quiet [OF quiet] by (simp add: b2 Inr)
  qed
  from sent run rest show ?thesis
    by blast
qed

text \<open>
  A wallet that accepts one transaction and rejects the next: the procedure returns the
  rejection, the trace holds the broadcast of the transaction spending \<open>aa\<close> and then that
  of the one spending \<open>bb\<close>, and the wallet has received two transactions.
\<close>

theorem ConvertCkptToTwoTxAndSubmit_not_atomic_witness:
  "fst (ConvertCkptToTwoTxAndSubmit
          (mock_submitter 100 [utxo ''bb'' 0 5 True, utxo ''aa'' 1 10 True] 1)
          (checkpoint 7 Sealed) world0) = Inl (Error ''rejected'') \<and>
   map (\<lambda>e. case e of
          CallSendRawTransaction tx b \<Rightarrow> map (\<lambda>ti. OutPoint_Hash (PreviousOutPoint ti)) (TxIn tx)
        | _ \<Rightarrow> [])
     (trace (snd (ConvertCkptToTwoTxAndSubmit
          (mock_submitter 100 [utxo ''bb'' 0 5 True, utxo ''aa'' 1 10 True] 1)
          (checkpoint 7 Sealed) world0))) =
     [[], [], [], [], [''aa''], [], [], [], [''bb'']] \<and>
   ext (snd (ConvertCkptToTwoTxAndSubmit
          (mock_submitter 100 [utxo ''bb'' 0 5 True, utxo ''aa'' 1 10 True] 1)
          (checkpoint 7 Sealed) world0)) = 2"
  using ConvertCkptToTwoTxAndSubmit_not_atomic [OF mock_Marshal mock_Encode mock_select [of 1]
      mock_build mock_send_ok, of "checkpoint 7 Sealed"]
  by (simp add: mock_build mock_send) (simp add: utxo_def)

section \<open>The worker and its messages\<close>

lemma submissions_append: "submissions (xs @ ys) = submissions xs @ submissions ys"
  by (induction xs rule: submissions.induct) simp_all

lemma submissions_quiet:
  "list_all (\<lambda>e. submissions [e] = []) es \<Longrightarrow> submissions es = []"
proof (induction es)
  case Nil
  show ?case by simp
next
  case (Cons e es)
  have "submissions (e # es) = submissions [e] @ submissions es"
    using submissions_append [of "[e]" es] by simp
  with Cons show ?case by simp
qed

lemma SubmitCkpt_submissions:
  "submissions (trace (snd (SubmitCkpt s ckpt w))) = submissions (trace w) @ [EpochNum (Ckpt ckpt)]"
proof -
  let ?w0 = "emit (LogSubmitting (EpochNum (Ckpt ckpt))) w"
  obtain es where es: "trace (snd (ConvertCkptToTwoTxAndSubmit s ckpt ?w0)) = trace ?w0 @ es"
    and quiet: "list_all (\<lambda>e. submissions [e] = []) es"
    using ConvertCkptToTwoTxAndSubmit_adds [of "\<lambda>e. submissions [e] = []" s ckpt ?w0]
    by auto
  have conv: "submissions (trace (snd (ConvertCkptToTwoTxAndSubmit s ckpt ?w0))) =
      submissions (trace w) @ [EpochNum (Ckpt ckpt)]"
    by (simp only: es) (simp add: submissions_append submissions_quiet [OF quiet] emit_def)
  show ?thesis
  proof (cases "ConvertCkptToTwoTxAndSubmit s ckpt ?w0")
    case (Pair r w')
    with conv show ?thesis
      by (cases r) (simp_all add: SubmitCkpt_def emit_def submissions_append)
  qed
qed


lemma handleCkpt_submissions:
  "submissions (trace (handleCkpt s ckpt w)) =
     submissions (trace w) @ (if Status ckpt = Sealed then [EpochNum (Ckpt ckpt)] else [])"
proof (cases "Status ckpt = Sealed")
  case False
  then show ?thesis by (simp add: handleCkpt_def)
next
  case True
  let ?w0 = "emit (LogSealedFound (EpochNum (Ckpt ckpt))) w"
  have sub: "submissions (trace (snd (SubmitCkpt s ckpt ?w0))) =
      submissions (trace w) @ [EpochNum (Ckpt ckpt)]"
    by (simp add: SubmitCkpt_submissions emit_def submissions_append)
  show ?thesis
  proof (cases "SubmitCkpt s ckpt ?w0")
    case (Pair r w')
    with sub True show ?thesis
      by (cases r) (simp_all add: handleCkpt_def emit_def submissions_append)
  qed
qed

lemma sealedCkptHandler_submissions:
  "submissions (trace (sealedCkptHandler s evs w)) =
     submissions (trace w) @
     map (\<lambda>c. EpochNum (Ckpt c)) (filter (\<lambda>c. Status c = Sealed) (before_quit evs))"
proof (induction evs arbitrary: w rule: before_quit.induct)
  case 1
  show ?case by simp
next
  case (2 rest)
  show ?case by simp
next
  case (3 ckpt rest)
  show ?case
    by (simp add: "3.IH" handleCkpt_submissions)
qed



text \<open>
  C10. When \<open>SubmitCkpt\<close> returns an error for a sealed checkpoint, the worker appends
  the error to the log and handles the rest of its messages from there. The failed
  checkpoint has been submitted once, not again, and every sealed checkpoint that follows
  before the quit signal is submitted as well.
\<close>

theorem sealedCkptHandler_continues_after_failure:
  assumes sealed: "Status ckpt = Sealed"
    and failed: "SubmitCkpt s ckpt (emit (LogSealedFound (EpochNum (Ckpt ckpt))) w) = (Inl err, w')"
  shows "sealedCkptHandler s (RecvCkpt ckpt # rest) w =
           sealedCkptHandler s rest (emit (LogSubmitFailed (EpochNum (Ckpt ckpt)) err) w') \<and>
         submissions (trace (emit (LogSubmitFailed (EpochNum (Ckpt ckpt)) err) w')) =
           submissions (trace w) @ [EpochNum (Ckpt ckpt)] \<and>
         submissions (trace (sealedCkptHandler s (RecvCkpt ckpt # rest) w)) =
           submissions (trace w) @ EpochNum (Ckpt ckpt) #
           map (\<lambda>c. EpochNum (Ckpt c)) (filter (\<lambda>c. Status c = Sealed) (before_quit rest))"
proof -
  have step: "handleCkpt s ckpt w = emit (LogSubmitFailed (EpochNum (Ckpt ckpt)) err) w'"
    using sealed failed by (simp add: handleCkpt_def)
  have once: "submissions (trace (handleCkpt s ckpt w)) = submissions (trace w) @ [EpochNum (Ckpt ckpt)]"
    using sealed by (simp add: handleCkpt_submissions)
  show ?thesis
    using sealed by (simp add: step [symmetric] once sealedCkptHandler_submissions)
qed

text \<open>
  A wallet with a single output: both submissions fail, both are logged, and the second
  checkpoint is handled after the first.
\<close>

theorem sealedCkptHandler_continues_after_failure_witness:
  "trace (sealedCkptHandler (mock_submitter 100 [utxo ''aa'' 1 10 True] 2)
       [RecvCkpt (checkpoint 7 Sealed), RecvCkpt (checkpoint 8 Sealed), RecvQuit] world0) =
     [LogSealedFound 7, LogSubmitting 7, CallListUnspent,
      LogSubmitFailed 7 (Error ''insufficient unspent transactions''),
      LogSealedFound 8, LogSubmitting 8, CallListUnspent,
      LogSubmitFailed 8 (Error ''insufficient unspent transactions'')] \<and>
   submissions (trace (sealedCkptHandler (mock_submitter 100 [utxo ''aa'' 1 10 True] 2)
       [RecvCkpt (checkpoint 7 Sealed), RecvCkpt (checkpoint 8 Sealed), RecvQuit] world0)) = [7, 8]"
  using sealedCkptHandler_continues_after_failure [OF checkpoint_Sealed mock_submit_fails,
      of "[RecvCkpt (checkpoint 8 Sealed), RecvQuit]"]
  by (simp add: checkpoint_def world0_def del: sealedCkptHandler.simps)
     (simp add: handleCkpt_def SubmitCkpt_def ConvertCkptToTwoTxAndSubmit_def getTopTwoUTXOs_def
        andThen_def lib_call_def call_def emit_def mock_defs)

section \<open>Connected and disconnected blocks\<close>

text \<open>
  C6. For a connected block whose signer and block have been fetched: with an empty cache,
  and with a cache whose tip's hash is not the fetched block's previous-block hash, the
  handler logs a warning, runs \<open>Bootstrap(true)\<close> and returns, with no call of \<open>Add\<close> or of
  the extraction in its trace; otherwise it calls \<open>Add\<close> with the block, then
  \<open>processHeaders\<close>, then \<open>processCheckpoints\<close>, each once with that one block, and returns.
\<close>

theorem handleConnectedBlocks_cases:
  assumes addr: "MustGetAddr r (rext w) = (Inr signer, xa)"
    and blk: "GetBlockByHash r (BlockHash r (Event_Header event)) xa = (Inr (ib, mBlock), xb)"
  shows "(Tip r xb = None \<longrightarrow>
          handleConnectedBlocks r event w =
            (Returned,
             \<lparr>rtrace = rtrace w @ [CallMustGetAddr, CallGetBlockByHash (BlockHash r (Event_Header event)),
                                    LogCacheEmpty, CallBootstrap True],
              rext = Bootstrap r True xb\<rparr>)) \<and>
         ((\<exists>tip. Tip r xb = Some tip \<and> PrevBlock (MsgBlock_Header mBlock) \<noteq> BlockHash r (Header tip)) \<longrightarrow>
          handleConnectedBlocks r event w =
            (Returned,
             \<lparr>rtrace = rtrace w @ [CallMustGetAddr, CallGetBlockByHash (BlockHash r (Event_Header event)),
                                    LogCacheNotUpToDate, CallBootstrap True],
              rext = Bootstrap r True xb\<rparr>)) \<and>
         ((\<exists>tip. Tip r xb = Some tip \<and> PrevBlock (MsgBlock_Header mBlock) = BlockHash r (Header tip)) \<longrightarrow>
          handleConnectedBlocks r event w =
            (Returned,
             \<lparr>rtrace = rtrace w @ [CallMustGetAddr, CallGetBlockByHash (BlockHash r (Event_Header event)),
                                    CallAdd ib, CallProcessHeaders signer [ib],
                                    CallProcessCheckpoints signer [ib]],
              rext = processCheckpoints r signer [ib] (processHeaders r signer [ib] (Add r ib xb))\<rparr>))"
  using addr blk
  by (auto simp: handleConnectedBlocks_def rcall_def rdo_def rlog_def Let_def)

text \<open>
  Block 2 arrives: on a cache ending in its parent, on a cache ending elsewhere, and on an
  empty cache.
\<close>

theorem handleConnectedBlocks_cases_witness:
  "handleConnectedBlocks (mock_reporter [block 1 ''h0'' ''h1'', block 2 ''h1'' ''h2''] False)
       (connected (block 2 ''h1'' ''h2'')) (rep_world0 [block 1 ''h0'' ''h1'']) =
     (Returned,
      \<lparr>rtrace = [CallMustGetAddr, CallGetBlockByHash ''h2'', CallAdd (block 2 ''h1'' ''h2''),
                 CallProcessHeaders ''signer'' [block 2 ''h1'' ''h2''],
                 CallProcessCheckpoints ''signer'' [block 2 ''h1'' ''h2'']],
       rext = \<lparr>cache = [block 1 ''h0'' ''h1'', block 2 ''h1'' ''h2''],
                headers_seen = 1, ckpts_seen = 1\<rparr>\<rparr>) \<and>
   handleConnectedBlocks (mock_reporter [block 1 ''h0'' ''h1'', block 2 ''h1'' ''h2''] False)
       (connected (block 2 ''h1'' ''h2'')) (rep_world0 [block 0 ''g0'' ''h0'']) =
     (Returned,
      \<lparr>rtrace = [CallMustGetAddr, CallGetBlockByHash ''h2'', LogCacheNotUpToDate, CallBootstrap True],
       rext = \<lparr>cache = [block 1 ''h0'' ''h1'', block 2 ''h1'' ''h2''],
                headers_seen = 0, ckpts_seen = 0\<rparr>\<rparr>) \<and>
   handleConnectedBlocks (mock_reporter [block 1 ''h0'' ''h1'', block 2 ''h1'' ''h2''] False)
       (connected (block 2 ''h1'' ''h2'')) (rep_world0 []) =
     (Returned,
      \<lparr>rtrace = [CallMustGetAddr, CallGetBlockByHash ''h2'', LogCacheEmpty, CallBootstrap True],
       rext = \<lparr>cache = [block 1 ''h0'' ''h1'', block 2 ''h1'' ''h2''],
                headers_seen = 0, ckpts_seen = 0\<rparr>\<rparr>)"
  using handleConnectedBlocks_cases
    [where r = "mock_reporter [block 1 ''h0'' ''h1'', block 2 ''h1'' ''h2''] False"
       and w = "rep_world0 [block 1 ''h0'' ''h1'']" and signer = "''signer''"
       and xa = "rext (rep_world0 [block 1 ''h0'' ''h1''])"
       and event = "connected (block 2 ''h1'' ''h2'')" and ib = "block 2 ''h1'' ''h2''"
       and mBlock = "\<lparr>MsgBlock_Header = Header (block 2 ''h1'' ''h2''), Transactions = []\<rparr>"
       and xb = "rext (rep_world0 [block 1 ''h0'' ''h1''])"]
    handleConnectedBlocks_cases
    [where r = "mock_reporter [block 1 ''h0'' ''h1'', block 2 ''h1'' ''h2''] False"
       and w = "rep_world0 [block 0 ''g0'' ''h0'']" and signer = "''signer''"
       and xa = "rext (rep_world0 [block 0 ''g0'' ''h0''])"
       and event = "connected (block 2 ''h1'' ''h2'')" and ib = "block 2 ''h1'' ''h2''"
       and mBlock = "\<lparr>MsgBlock_Header = Header (block 2 ''h1'' ''h2''), Transactions = []\<rparr>"
       and xb = "rext (rep_world0 [block 0 ''g0'' ''h0''])"]
    handleConnectedBlocks_cases
    [where r = "mock_reporter [block 1 ''h0'' ''h1'', block 2 ''h1'' ''h2''] False"
       and w = "rep_world0 []" and signer = "''signer''" and xa = "rext (rep_world0 [])"
       and event = "connected (block 2 ''h1'' ''h2'')" and ib = "block 2 ''h1'' ''h2''"
       and mBlock = "\<lparr>MsgBlock_Header = Header (block 2 ''h1'' ''h2''), Transactions = []\<rparr>"
       and xb = "rext (rep_world0 [])"]
  by (simp add: mock_reporter_defs)

text \<open>
  C7. For a disconnected block: with an empty cache, and with a cache whose tip's hash is
  not the event's hash, the handler logs a warning, runs \<open>Bootstrap(true)\<close> and returns,
  with no call of \<open>RemoveLast\<close>. Otherwise it calls \<open>RemoveLast\<close> once; when that succeeds
  nothing else happens, and when it fails the handler logs the error, runs
  \<open>Bootstrap(true)\<close> and panics with that error.
\<close>

theorem handleDisconnectedBlocks_cases:
  "(Tip r (rext w) = None \<longrightarrow>
      handleDisconnectedBlocks r event w =
        (Returned,
         \<lparr>rtrace = rtrace w @ [LogCacheEmpty, CallBootstrap True],
          rext = Bootstrap r True (rext w)\<rparr>)) \<and>
   ((\<exists>tip. Tip r (rext w) = Some tip \<and>
           BlockHash r (Event_Header event) \<noteq> BlockHash r (Header tip)) \<longrightarrow>
      handleDisconnectedBlocks r event w =
        (Returned,
         \<lparr>rtrace = rtrace w @ [LogCacheNotUpToDate, CallBootstrap True],
          rext = Bootstrap r True (rext w)\<rparr>)) \<and>
   ((\<exists>tip. Tip r (rext w) = Some tip \<and>
           BlockHash r (Event_Header event) = BlockHash r (Header tip)) \<longrightarrow>
    handleDisconnectedBlocks r event w =
      (case RemoveLast r (rext w) of
         (Inr _, x) \<Rightarrow> (Returned, \<lparr>rtrace = rtrace w @ [CallRemoveLast], rext = x\<rparr>)
       | (Inl err, x) \<Rightarrow>
           (Panicked err,
            \<lparr>rtrace = rtrace w @ [CallRemoveLast, LogFailedToRemoveLast err, CallBootstrap True],
             rext = Bootstrap r True x\<rparr>)))"
  by (auto simp: handleDisconnectedBlocks_def rcall_def rdo_def rlog_def Let_def
      split: prod.splits sum.splits)

text \<open>
  Block 2 is disconnected: from a cache ending in it, from a cache ending in block 1, and
  from a cache whose \<open>RemoveLast\<close> fails.
\<close>

theorem handleDisconnectedBlocks_cases_witness:
  "handleDisconnectedBlocks (mock_reporter [block 1 ''h0'' ''h1''] False)
       (disconnected (block 2 ''h1'' ''h2'')) (rep_world0 [block 1 ''h0'' ''h1'', block 2 ''h1'' ''h2'']) =
     (Returned,
      \<lparr>rtrace = [CallRemoveLast],
       rext = \<lparr>cache = [block 1 ''h0'' ''h1''], headers_seen = 0, ckpts_seen = 0\<rparr>\<rparr>) \<and>
   handleDisconnectedBlocks (mock_reporter [block 1 ''h0'' ''h1''] False)
       (disconnected (block 2 ''h1'' ''h2'')) (rep_world0 [block 1 ''h0'' ''h1'']) =
     (Returned,
      \<lparr>rtrace = [LogCacheNotUpToDate, CallBootstrap True],
       rext = \<lparr>cache = [block 1 ''h0'' ''h1''], headers_seen = 0, ckpts_seen = 0\<rparr>\<rparr>) \<and>
   handleDisconnectedBlocks (mock_reporter [block 1 ''h0'' ''h1''] True)
       (disconnected (block 2 ''h1'' ''h2'')) (rep_world0 [block 1 ''h0'' ''h1'', block 2 ''h1'' ''h2'']) =
     (Panicked (Error ''empty cache''),
      \<lparr>rtrace = [CallRemoveLast, LogFailedToRemoveLast (Error ''empty cache''), CallBootstrap True],
       rext = \<lparr>cache = [block 1 ''h0'' ''h1''], headers_seen = 0, ckpts_seen = 0\<rparr>\<rparr>)"
  using handleDisconnectedBlocks_cases
    [of "mock_reporter [block 1 ''h0'' ''h1''] False"
      "rep_world0 [block 1 ''h0'' ''h1'', block 2 ''h1'' ''h2'']" "disconnected (block 2 ''h1'' ''h2'')"]
    handleDisconnectedBlocks_cases
    [of "mock_reporter [block 1 ''h0'' ''h1''] False"
      "rep_world0 [block 1 ''h0'' ''h1'']" "disconnected (block 2 ''h1'' ''h2'')"]
    handleDisconnectedBlocks_cases
    [of "mock_reporter [block 1 ''h0'' ''h1''] True"
      "rep_world0 [block 1 ''h0'' ''h1'', block 2 ''h1'' ''h2'']" "disconnected (block 2 ''h1'' ''h2'')"]
  by (simp add: mock_reporter_defs)

end
